theory Spec2Isabelle
  imports Complex_Main
begin

section \<open>Numbers of the dashboard\<close>

text \<open>
  The dashboard computes with Python and numpy floats. A value is modelled as a real
  number or one of the three special values a float can take: the arithmetic on finite
  values is exact (no rounding, no overflow, one zero), and the special values follow
  IEEE 754 as numpy applies them: dividing by zero gives an infinity or NaN, NaN
  compares false with everything, and an operation on NaN gives NaN.
\<close>

datatype fl = Num real | PInf | NInf | NaN

fun fl_neg :: "fl \<Rightarrow> fl" where
  "fl_neg (Num a) = Num (- a)"
| "fl_neg PInf = NInf"
| "fl_neg NInf = PInf"
| "fl_neg NaN = NaN"

fun fl_add :: "fl \<Rightarrow> fl \<Rightarrow> fl" where
  "fl_add (Num a) (Num b) = Num (a + b)"
| "fl_add NaN _ = NaN"
| "fl_add _ NaN = NaN"
| "fl_add PInf NInf = NaN"
| "fl_add NInf PInf = NaN"
| "fl_add PInf _ = PInf"
| "fl_add _ PInf = PInf"
| "fl_add NInf _ = NInf"
| "fl_add _ NInf = NInf"

definition fl_sub :: "fl \<Rightarrow> fl \<Rightarrow> fl" where
  "fl_sub x y = fl_add x (fl_neg y)"

fun fl_sgn :: "fl \<Rightarrow> real" where
  "fl_sgn (Num a) = sgn a"
| "fl_sgn PInf = 1"
| "fl_sgn NInf = - 1"
| "fl_sgn NaN = 0"

fun fl_mul :: "fl \<Rightarrow> fl \<Rightarrow> fl" where
  "fl_mul (Num a) (Num b) = Num (a * b)"
| "fl_mul NaN _ = NaN"
| "fl_mul _ NaN = NaN"
| "fl_mul x y =
     (if fl_sgn x * fl_sgn y = 0 then NaN
      else if 0 < fl_sgn x * fl_sgn y then PInf else NInf)"

fun fl_div :: "fl \<Rightarrow> fl \<Rightarrow> fl" where
  "fl_div (Num a) (Num b) =
     (if b = 0 then (if a = 0 then NaN else if 0 < a then PInf else NInf)
      else Num (a / b))"
| "fl_div NaN _ = NaN"
| "fl_div _ NaN = NaN"
| "fl_div (Num a) _ = Num 0"
| "fl_div PInf (Num b) = (if 0 \<le> b then PInf else NInf)"
| "fl_div NInf (Num b) = (if 0 \<le> b then NInf else PInf)"
| "fl_div _ _ = NaN"

fun fl_lt :: "fl \<Rightarrow> fl \<Rightarrow> bool" where
  "fl_lt (Num a) (Num b) = (a < b)"
| "fl_lt NaN _ = False"
| "fl_lt _ NaN = False"
| "fl_lt _ NInf = False"
| "fl_lt PInf _ = False"
| "fl_lt NInf _ = True"
| "fl_lt _ PInf = True"

fun fl_eq :: "fl \<Rightarrow> fl \<Rightarrow> bool" where
  "fl_eq (Num a) (Num b) = (a = b)"
| "fl_eq PInf PInf = True"
| "fl_eq NInf NInf = True"
| "fl_eq _ _ = False"

fun fl_abs :: "fl \<Rightarrow> fl" where
  "fl_abs (Num a) = Num \<bar>a\<bar>"
| "fl_abs PInf = PInf"
| "fl_abs NInf = PInf"
| "fl_abs NaN = NaN"

fun fl_sqrt :: "fl \<Rightarrow> fl" where
  "fl_sqrt (Num a) = (if 0 \<le> a then Num (sqrt a) else NaN)"
| "fl_sqrt PInf = PInf"
| "fl_sqrt NInf = NaN"
| "fl_sqrt NaN = NaN"

text \<open>
  \<open>x ** y\<close> on a numpy float with a Python float exponent. The two call sites raise to
  \<open>252 / n\<close> for a count \<open>n \<ge> 1\<close>, a positive finite exponent; a negative base gives
  NaN unless the exponent is a whole number.
\<close>

fun fl_pow :: "fl \<Rightarrow> real \<Rightarrow> fl" where
  "fl_pow (Num a) y =
     (if 0 < a then Num (a powr y)
      else if a = 0 then (if 0 < y then Num 0 else if y = 0 then Num 1 else PInf)
      else if y = of_int \<lfloor>y\<rfloor> then
        (if 0 \<le> y then Num (a ^ nat \<lfloor>y\<rfloor>) else Num (1 / a ^ nat (- \<lfloor>y\<rfloor>)))
      else NaN)"
| "fl_pow PInf y = (if 0 < y then PInf else if y = 0 then Num 1 else Num 0)"
| "fl_pow NInf y =
     (if y = 0 then Num 1
      else if 0 < y then (if y = of_int \<lfloor>y\<rfloor> \<and> odd \<lfloor>y\<rfloor> then NInf else PInf)
      else Num 0)"
| "fl_pow NaN y = (if y = 0 then Num 1 else NaN)"

section \<open>pandas series\<close>

text \<open>
  A \<open>pd.Series\<close> of floats is the list of its values in index order. The reductions
  skip NaN entries, as pandas does by default (\<open>skipna=True\<close>).
\<close>

definition dropna :: "fl list \<Rightarrow> fl list" where
  "dropna xs = filter (\<lambda>x. \<not> (x = NaN)) xs"

definition fl_sum :: "fl list \<Rightarrow> fl" where
  "fl_sum xs = foldl fl_add (Num 0) xs"

definition series_mean :: "fl list \<Rightarrow> fl" where
  "series_mean xs = (let vs = dropna xs in
     if vs = [] then NaN else fl_div (fl_sum vs) (Num (real (length vs))))"

text \<open>\<open>Series.std()\<close>: the sample standard deviation (\<open>ddof=1\<close>), NaN below two values.\<close>

definition series_std :: "fl list \<Rightarrow> fl" where
  "series_std xs = (let vs = dropna xs; n = length vs in
     if n < 2 then NaN
     else let avg = fl_div (fl_sum vs) (Num (real n));
              sqr = map (\<lambda>v. fl_mul (fl_sub avg v) (fl_sub avg v)) vs
          in fl_sqrt (fl_div (fl_sum sqr) (Num (real (n - 1)))))"

definition series_prod :: "fl list \<Rightarrow> fl" where
  "series_prod xs = foldl fl_mul (Num 1) (dropna xs)"

definition fl_min :: "fl \<Rightarrow> fl \<Rightarrow> fl" where
  "fl_min a b = (if fl_lt b a then b else a)"

definition series_min :: "fl list \<Rightarrow> fl" where
  "series_min xs = (case dropna xs of [] \<Rightarrow> NaN | v # vs \<Rightarrow> foldl fl_min v vs)"

text \<open>\<open>pct_change()\<close>: NaN at the first row, then \<open>x\<^sub>i / x\<^sub>i\<^sub>-\<^sub>1 - 1\<close>.\<close>

fun pct_change_from :: "real \<Rightarrow> real list \<Rightarrow> fl list" where
  "pct_change_from p [] = []"
| "pct_change_from p (x # xs) =
     fl_sub (fl_div (Num x) (Num p)) (Num 1) # pct_change_from x xs"

definition pct_change :: "real list \<Rightarrow> fl list" where
  "pct_change xs = (case xs of [] \<Rightarrow> [] | x # rest \<Rightarrow> NaN # pct_change_from x rest)"

text \<open>\<open>expanding().max()\<close> and \<open>cummax()\<close>: the running maximum of a series.\<close>

fun running_max_from :: "real \<Rightarrow> real list \<Rightarrow> real list" where
  "running_max_from m [] = []"
| "running_max_from m (x # xs) = max m x # running_max_from (max m x) xs"

definition running_max :: "real list \<Rightarrow> real list" where
  "running_max xs = (case xs of [] \<Rightarrow> [] | x # rest \<Rightarrow> x # running_max_from x rest)"

definition list_max :: "real list \<Rightarrow> real" where
  "list_max xs = foldl max (hd xs) (tl xs)"

definition list_min :: "real list \<Rightarrow> real" where
  "list_min xs = foldl min (hd xs) (tl xs)"

section \<open>Persisted inputs\<close>

text \<open>
  The JSON files the dashboard reads. A key that a record may lack is an option, read
  with the default the code passes to \<open>dict.get\<close>. A file that does not exist is
  \<open>None\<close>. The daily logs are given as the \<open>total_equity\<close> values in date order.
\<close>

definition getd :: "'a option \<Rightarrow> 'a \<Rightarrow> 'a" where
  "getd v d = (case v of None \<Rightarrow> d | Some x \<Rightarrow> x)"

record position =
  pos_quantity :: "real option"
  pos_avg_price :: "real option"
  pos_current_price :: "real option"

record portfolio_state =
  st_cash :: "real option"
  st_positions :: "(string \<times> position) list option"
  st_initial_capital :: "real option"

record trade =
  tr_action :: "string option"
  tr_pnl :: "real option"

record risk_config =
  rc_max_portfolio_exposure :: "real option"
  rc_max_positions :: "real option"
  rc_max_drawdown_alert :: "real option"

record files =
  portfolio_file :: "portfolio_state option"
  trades_file :: "trade list option"
  daily_logs :: "real list option"

text \<open>The values of the dictionaries the portfolio functions return.\<close>

datatype pv = Number real | Positions "(string \<times> position) list"

section \<open>metrics.py: DashboardMetrics\<close>

definition metrics_get_portfolio_summary :: "portfolio_state option \<Rightarrow> (string \<times> pv) list" where
  "metrics_get_portfolio_summary state_file =
     (case state_file of
        None \<Rightarrow>
          [(''total_equity'', Number 0), (''cash'', Number 0), (''positions_value'', Number 0),
           (''total_return_pct'', Number 0), (''unrealized_pnl'', Number 0)]
      | Some state \<Rightarrow>
          (let initial = getd (st_initial_capital state) 100000;
               cash = getd (st_cash state) initial;
               positions = getd (st_positions state) [];
               positions_value = sum_list (map (\<lambda>p. getd (pos_quantity p) 0
                                   * getd (pos_current_price p) 0) (map snd positions));
               total_equity = cash + positions_value;
               total_return_pct = (if 0 < initial then (total_equity / initial - 1) * 100 else 0)
           in [(''total_equity'', Number total_equity), (''cash'', Number cash),
               (''positions_value'', Number positions_value),
               (''total_return_pct'', Number total_return_pct),
               (''initial_capital'', Number initial), (''positions'', Positions positions)]))"

definition zero_trade_statistics :: "nat \<Rightarrow> (string \<times> real) list" where
  "zero_trade_statistics n =
     [(''total_trades'', real n), (''winning_trades'', 0), (''losing_trades'', 0),
      (''win_rate'', 0), (''total_pnl'', 0), (''avg_pnl'', 0)]"

definition metrics_get_trade_statistics :: "trade list option \<Rightarrow> (string \<times> real) list" where
  "metrics_get_trade_statistics trades_f =
     (case trades_f of
        None \<Rightarrow> zero_trade_statistics 0
      | Some trades \<Rightarrow>
          if trades = [] then zero_trade_statistics 0
          else
            (let closed_trades = filter (\<lambda>t. tr_action t = Some ''SELL'') trades in
             if closed_trades = [] then zero_trade_statistics (length trades)
             else
               (let pnls = map (\<lambda>t. getd (tr_pnl t) 0) closed_trades;
                    winning = length (filter (\<lambda>pnl. 0 < pnl) pnls);
                    losing = length (filter (\<lambda>pnl. pnl < 0) pnls)
                in [(''total_trades'', real (length trades)),
                    (''closed_trades'', real (length closed_trades)),
                    (''winning_trades'', real winning),
                    (''losing_trades'', real losing),
                    (''win_rate'', real winning / real (length closed_trades) * 100),
                    (''total_pnl'', sum_list pnls),
                    (''avg_pnl'', sum_list pnls / real (length pnls)),
                    (''best_trade'', list_max pnls),
                    (''worst_trade'', list_min pnls)])))"

definition calculate_sharpe_ratio :: "fl list \<Rightarrow> real \<Rightarrow> fl" where
  "calculate_sharpe_ratio returns risk_free_rate =
     (if returns = [] \<or> length returns < 2 \<or> fl_eq (series_std returns) (Num 0) then Num 0
      else
        (let mean_return = fl_mul (series_mean returns) (Num 252);
             std_return = fl_mul (series_std returns) (Num (sqrt 252))
         in fl_div (fl_sub mean_return (Num risk_free_rate)) std_return))"

definition metrics_calculate_max_drawdown :: "real list \<Rightarrow> fl" where
  "metrics_calculate_max_drawdown equity_curve =
     (if equity_curve = [] then Num 0
      else series_min (map (\<lambda>(e, m). fl_mul (fl_sub (fl_div (Num e) (Num m)) (Num 1)) (Num 100))
                           (zip equity_curve (running_max equity_curve))))"

text \<open>
  \<open>get_daily_returns\<close>: the percentage changes of the logged equity, the last \<open>days\<close>
  of them when there are more.
\<close>

definition get_daily_returns :: "real list option \<Rightarrow> nat \<Rightarrow> fl list" where
  "get_daily_returns logs days =
     (case logs of
        None \<Rightarrow> []
      | Some equity_data \<Rightarrow>
          if equity_data = [] then []
          else
            (let returns = dropna (pct_change equity_data) in
             if 0 < days \<and> days < length returns
             then drop (length returns - days) returns else returns))"

definition zero_performance_metrics :: "(string \<times> fl) list" where
  "zero_performance_metrics =
     [(''sharpe_ratio'', Num 0), (''sortino_ratio'', Num 0), (''max_drawdown'', Num 0),
      (''volatility'', Num 0), (''win_rate'', Num 0), (''total_return_pct'', Num 0),
      (''annual_return_pct'', Num 0)]"

text \<open>
  The body of \<open>get_performance_metrics\<close> after \<open>returns = self.get_daily_returns(days)\<close>.
\<close>

definition metrics_performance_of :: "fl list \<Rightarrow> trade list option \<Rightarrow> (string \<times> fl) list" where
  "metrics_performance_of returns trades_f =
     (if returns = [] then zero_performance_metrics
      else
        (let sharpe = calculate_sharpe_ratio returns (2 / 100);
             negative_returns = filter (\<lambda>r. fl_lt r (Num 0)) returns;
             sortino =
               (if 0 < length negative_returns then
                  (let downside_std = fl_mul (series_std negative_returns) (Num (sqrt 252)) in
                   if fl_lt (Num 0) downside_std
                   then fl_div (fl_sub (fl_mul (series_mean returns) (Num 252)) (Num (2 / 100)))
                               downside_std
                   else Num 0)
                else PInf);
             volatility = fl_mul (fl_mul (series_std returns) (Num (sqrt 252))) (Num 100);
             total_return =
               fl_mul (fl_sub (series_prod (map (fl_add (Num 1)) returns)) (Num 1)) (Num 100);
             trading_days = length returns;
             annual_return =
               (if 0 < trading_days then
                  fl_mul (fl_sub (fl_pow (fl_add (Num 1) (fl_div total_return (Num 100)))
                                         (252 / real trading_days)) (Num 1)) (Num 100)
                else Num 0);
             trade_stats = metrics_get_trade_statistics trades_f
         in [(''sharpe_ratio'', sharpe), (''sortino_ratio'', sortino), (''max_drawdown'', Num 0),
             (''volatility'', volatility),
             (''win_rate'', Num (getd (map_of trade_stats ''win_rate'') 0 / 100)),
             (''total_return_pct'', total_return), (''annual_return_pct'', annual_return)]))"

definition metrics_get_performance_metrics :: "files \<Rightarrow> nat \<Rightarrow> (string \<times> fl) list" where
  "metrics_get_performance_metrics fs days =
     metrics_performance_of (get_daily_returns (daily_logs fs) days) (trades_file fs)"

section \<open>data_loader.py: DashboardDataLoader\<close>

text \<open>
  The loader's methods are prefixed \<open>loader_\<close>. Those that start from
  \<open>get_equity_curve\<close> or \<open>get_trade_history\<close> take what that call returns: the
  \<open>equity\<close> column in date order, and the rows of the trade frame.
\<close>

definition loader_get_portfolio_status :: "portfolio_state option \<Rightarrow> (string \<times> pv) list" where
  "loader_get_portfolio_status paper_portfolio_file =
     (case paper_portfolio_file of
        Some data \<Rightarrow>
          (let cash = getd (st_cash data) 100000;
               positions = getd (st_positions data) [];
               invested = sum_list (map (\<lambda>p. getd (pos_quantity p) 0
                            * getd (pos_current_price p) (getd (pos_avg_price p) 0))
                            (map snd positions));
               initial = getd (st_initial_capital data) 100000;
               total_equity = cash + invested
           in [(''total_equity'', Number total_equity), (''cash'', Number cash),
               (''invested'', Number invested), (''positions'', Positions positions),
               (''total_return_pct'',
                  Number (if 0 < initial then (total_equity / initial - 1) * 100 else 0)),
               (''initial_capital'', Number initial)])
      | None \<Rightarrow>
          [(''total_equity'', Number 100000), (''cash'', Number 100000), (''invested'', Number 0),
           (''positions'', Positions []), (''total_return_pct'', Number 0),
           (''initial_capital'', Number 100000)])"

definition loader_annualize_return :: "fl list \<Rightarrow> fl" where
  "loader_annualize_return returns =
     (if returns = [] then Num 0
      else
        (let total_return = fl_sub (series_prod (map (fl_add (Num 1)) returns)) (Num 1);
             num_days = length returns
         in if num_days = 0 then Num 0
            else fl_sub (fl_pow (fl_add (Num 1) total_return) (252 / real num_days)) (Num 1)))"

definition loader_calculate_sharpe :: "fl list \<Rightarrow> fl" where
  "loader_calculate_sharpe returns =
     (if returns = [] \<or> fl_eq (series_std returns) (Num 0) then Num 0
      else fl_mul (fl_div (series_mean returns) (series_std returns)) (Num (sqrt 252)))"

definition loader_calculate_sortino :: "fl list \<Rightarrow> fl" where
  "loader_calculate_sortino returns =
     (if returns = [] then Num 0
      else
        (let downside_returns = filter (\<lambda>r. fl_lt r (Num 0)) returns in
         if downside_returns = [] \<or> fl_eq (series_std downside_returns) (Num 0) then Num 0
         else fl_mul (fl_div (series_mean returns) (series_std downside_returns))
                     (Num (sqrt 252))))"

definition loader_calculate_max_drawdown :: "real list \<Rightarrow> fl" where
  "loader_calculate_max_drawdown equity =
     (if equity = [] then Num 0
      else series_min (map (\<lambda>(e, m). fl_div (fl_sub (Num e) (Num m)) (Num m))
                           (zip equity (running_max equity))))"

text \<open>
  \<open>_calculate_win_rate\<close>: the frame has a \<open>pnl\<close> column when some row carries the key;
  a row without it holds NaN there, which is not greater than 0.
\<close>

definition loader_calculate_win_rate :: "trade list \<Rightarrow> real" where
  "loader_calculate_win_rate trades =
     (if trades = [] \<or> list_all (\<lambda>t. tr_pnl t = None) trades then 0
      else real (length (filter (\<lambda>t. 0 < getd (tr_pnl t) 0) trades)) / real (length trades))"

definition loader_get_performance_metrics :: "real list \<Rightarrow> trade list \<Rightarrow> (string \<times> fl) list" where
  "loader_get_performance_metrics equity_curve trades =
     (if equity_curve = [] then []
      else
        (let returns = dropna (pct_change equity_curve);
             annual = loader_annualize_return returns;
             mdd = loader_calculate_max_drawdown equity_curve
         in [(''total_return_pct'',
                fl_sub (fl_div (Num (last equity_curve)) (Num (hd equity_curve))) (Num 1)),
             (''annual_return_pct'', annual),
             (''sharpe_ratio'', loader_calculate_sharpe returns),
             (''sortino_ratio'', loader_calculate_sortino returns),
             (''max_drawdown'', mdd),
             (''win_rate'', Num (loader_calculate_win_rate trades)),
             (''volatility'', fl_mul (series_std returns) (Num (sqrt 252))),
             (''calmar_ratio'',
                if fl_eq mdd (Num 0) then Num 0 else fl_div annual (fl_abs mdd))]))"

definition pv_number :: "pv option \<Rightarrow> real \<Rightarrow> real" where
  "pv_number v d = (case v of Some (Number x) \<Rightarrow> x | _ \<Rightarrow> d)"

definition pv_positions :: "pv option \<Rightarrow> (string \<times> position) list" where
  "pv_positions v = (case v of Some (Positions ps) \<Rightarrow> ps | _ \<Rightarrow> [])"

text \<open>
  \<open>get_risk_status\<close>, from the portfolio file, the risk configuration and the equity
  curve of the last 90 days.
\<close>

definition loader_get_risk_status ::
    "portfolio_state option \<Rightarrow> risk_config \<Rightarrow> real list \<Rightarrow> (string \<times> real) list" where
  "loader_get_risk_status paper_portfolio_file cfg equity_curve =
     (let portfolio = loader_get_portfolio_status paper_portfolio_file;
          total_equity = pv_number (map_of portfolio ''total_equity'') 100000;
          invested = pv_number (map_of portfolio ''invested'') 0;
          num_positions = length (pv_positions (map_of portfolio ''positions''));
          current_drawdown =
            (if equity_curve = [] then 0
             else (let peak = list_max equity_curve; current = last equity_curve
                   in if 0 < peak then (current - peak) / peak else 0))
      in [(''portfolio_exposure'', if 0 < total_equity then invested / total_equity else 0),
          (''max_exposure'', getd (rc_max_portfolio_exposure cfg) (1 / 2)),
          (''num_positions'', real num_positions),
          (''max_positions'', getd (rc_max_positions cfg) 3),
          (''current_drawdown'', \<bar>current_drawdown\<bar>),
          (''max_drawdown_limit'', getd (rc_max_drawdown_alert cfg) (15 / 100))])"

section \<open>The specification's formulas\<close>

text \<open>
  The quantities below are written from the specification's words, over real numbers,
  to be compared with what the code computes.
\<close>

text \<open>
  The win rate: the closed trades are the SELL trades; the rate is the share of them
  with a positive profit, and 0 when there is none.
\<close>

definition spec_win_rate :: "trade list \<Rightarrow> real" where
  "spec_win_rate trades =
     (let closed = filter (\<lambda>t. tr_action t = Some ''SELL'') trades in
      if closed = [] then 0
      else real (length (filter (\<lambda>t. 0 < getd (tr_pnl t) 0) closed)) / real (length closed))"


text \<open>
  A portfolio snapshot with every field present: the cash, the positions as
  (symbol, quantity, average price, current price), and the initial capital; and its
  invested value, the sum of quantity times current price.
\<close>

definition snapshot :: "real \<Rightarrow> (string \<times> real \<times> real \<times> real) list \<Rightarrow> real \<Rightarrow> portfolio_state" where
  "snapshot cash ps initial =
     \<lparr>st_cash = Some cash,
      st_positions = Some (map (\<lambda>(s, q, a, c). (s, \<lparr>pos_quantity = Some q, pos_avg_price = Some a,
                                   pos_current_price = Some c\<rparr>)) ps),
      st_initial_capital = Some initial\<rparr>"

definition invested_value :: "(string \<times> real \<times> real \<times> real) list \<Rightarrow> real" where
  "invested_value ps = sum_list (map (\<lambda>(s, q, a, c). q * c) ps)"

section \<open>Series of finite values\<close>

lemma getd_Some: "getd (Some x) d = x"
  by (simp add: getd_def)

lemma getd_None: "getd None d = d"
  by (simp add: getd_def)

lemma dropna_map_Num: "dropna (map Num xs) = map Num xs"
  by (induction xs) (simp_all add: dropna_def)

lemma foldl_fl_add_Num: "foldl fl_add (Num a) (map Num xs) = Num (a + sum_list xs)"
  by (induction xs arbitrary: a) (simp_all add: add.assoc)

lemma fl_sum_map_Num: "fl_sum (map Num xs) = Num (sum_list xs)"
  by (simp add: fl_sum_def foldl_fl_add_Num)




lemma series_std_map_Num:
  "series_std (map Num xs) =
     (if length xs < 2 then NaN
      else Num (sqrt (sum_list (map (\<lambda>v. (sum_list xs / real (length xs) - v)
                                        * (sum_list xs / real (length xs) - v)) xs)
                      / real (length xs - 1))))"
proof -
  have sq: "map (\<lambda>v. fl_mul (fl_sub (Num a) v) (fl_sub (Num a) v)) (map Num xs)
              = map Num (map (\<lambda>v. (a - v) * (a - v)) xs)" for a
    by (simp add: fl_sub_def)
  have nonneg: "0 \<le> sum_list (map (\<lambda>v. (a - v) * (a - v)) xs)" for a
    by (rule sum_list_nonneg) auto
  show ?thesis
    using nonneg
    by (auto simp add: series_std_def dropna_map_Num fl_sum_map_Num Let_def sq
        simp del: map_map)
qed

lemma filter_neg_map_Num:
  "filter (\<lambda>r. fl_lt r (Num 0)) (map Num xs) = map Num (filter (\<lambda>r. r < 0) xs)"
  by (induction xs) simp_all








section \<open>Maximum drawdown\<close>

lemma max_drawdown_field:
  "map_of (metrics_performance_of returns tf) ''max_drawdown'' = Some (Num 0)"
  by (simp add: metrics_performance_of_def zero_performance_metrics_def Let_def)

lemma scen_returns: "get_daily_returns (Some [100000, 105000, 95000, 110000]) 30
     = [Num (1/20), Num (- 2/21), Num (3/19)]"
  by (simp add: get_daily_returns_def pct_change_def dropna_def fl_sub_def)

lemma scen_mdd: "loader_calculate_max_drawdown [100000, 105000, 95000, 110000] = Num (- 2 / 21)"
  by (simp add: loader_calculate_max_drawdown_def running_max_def series_min_def dropna_def fl_sub_def fl_min_def)


text \<open>
  C1. The claim: the \<open>max_drawdown\<close> field of the performance metrics is the minimum
  over the points of (equity - running maximum) / running maximum, about -0.0952 for
  the equity series 100000, 105000, 95000, 110000. The performance metrics of
  \<open>DashboardMetrics\<close> report the constant 0 in that field for every input: on this
  series the returns are not empty, the field is 0, and the loader's
  \<open>_calculate_max_drawdown\<close> gives -2/21 on the same series.
\<close>

theorem max_drawdown_hardcoded:
  "map_of (metrics_get_performance_metrics fs days) ''max_drawdown'' = Some (Num 0)
   \<and> get_daily_returns (Some [100000, 105000, 95000, 110000]) 30
       = [Num (1 / 20), Num (- 2 / 21), Num (3 / 19)]
   \<and> loader_calculate_max_drawdown [100000, 105000, 95000, 110000] = Num (- 2 / 21)"
  by (simp add: metrics_get_performance_metrics_def max_drawdown_field scen_returns scen_mdd)









section \<open>Win rate\<close>

lemma spec_win_rate_range: "0 \<le> spec_win_rate trades \<and> spec_win_rate trades \<le> 1"
proof -
  define closed where "closed = filter (\<lambda>t. tr_action t = Some ''SELL'') trades"
  have "length (filter (\<lambda>t. 0 < getd (tr_pnl t) 0) closed) \<le> length closed"
    by (rule length_filter_le)
  then show ?thesis
    unfolding spec_win_rate_def Let_def closed_def [symmetric]
    by (simp add: divide_le_eq_1)
qed

lemma stats_win_rate:
  "map_of (metrics_get_trade_statistics tf) ''win_rate'' = Some (100 * spec_win_rate (getd tf []))"
  by (cases tf)
     (simp_all add: metrics_get_trade_statistics_def zero_trade_statistics_def spec_win_rate_def
        getd_def Let_def filter_map comp_def)

text \<open>
  C2, as amended. For every trade file, \<open>get_trade_statistics\<close> reports the win rate
  as a percentage: 100 times the share of the SELL trades with a positive profit, BUY
  trades left out of both counts, and 0 when there is no SELL trade. The performance
  metrics of \<open>DashboardMetrics\<close> divide it by 100, and that value lies between 0
  and 1.
\<close>

theorem win_rate_percentage:
  "map_of (metrics_get_trade_statistics tf) ''win_rate'' = Some (100 * spec_win_rate (getd tf []))
   \<and> map_of (metrics_performance_of (r # rs) tf) ''win_rate'' = Some (Num (spec_win_rate (getd tf [])))
   \<and> 0 \<le> spec_win_rate (getd tf []) \<and> spec_win_rate (getd tf []) \<le> 1"
  using spec_win_rate_range [of "getd tf []"] stats_win_rate [of tf]
  by (simp add: metrics_performance_of_def Let_def getd_def)

text \<open>
  The claim as written fails on one winning SELL trade: \<open>get_trade_statistics\<close>
  reports 100, which is not in the interval from 0 to 1.
\<close>

theorem win_rate_counterexample:
  "\<not> (getd (map_of (metrics_get_trade_statistics
         (Some [\<lparr>tr_action = Some ''SELL'', tr_pnl = Some 3000\<rparr>])) ''win_rate'') 0 \<le> 1)"
  by (simp add: metrics_get_trade_statistics_def getd_def Let_def)

text \<open>
  The loader's \<open>_calculate_win_rate\<close> does not look at the action: a BUY row counts
  in its denominator.
\<close>

lemma loader_win_rate_counts_buys:
  "loader_calculate_win_rate [\<lparr>tr_action = Some ''BUY'', tr_pnl = Some 0\<rparr>,
      \<lparr>tr_action = Some ''SELL'', tr_pnl = Some 3000\<rparr>] = 1 / 2
   \<and> spec_win_rate [\<lparr>tr_action = Some ''BUY'', tr_pnl = Some 0\<rparr>,
      \<lparr>tr_action = Some ''SELL'', tr_pnl = Some 3000\<rparr>] = 1"
  by (simp add: loader_calculate_win_rate_def spec_win_rate_def getd_def Let_def)

section \<open>Sortino ratio\<close>





text \<open>
  The loader's \<open>_calculate_sortino\<close> returns 0 when no return is negative, and NaN
  on a single negative return.
\<close>

lemma loader_sortino_no_downside:
  "list_all (\<lambda>r. 0 \<le> r) xs \<Longrightarrow> loader_calculate_sortino (map Num xs) = Num 0"
proof -
  assume "list_all (\<lambda>r. 0 \<le> r) xs"
  then have "filter (\<lambda>r. r < 0) xs = []"
    by (simp add: filter_empty_conv list_all_iff not_less)
  then show ?thesis
    by (simp add: loader_calculate_sortino_def Let_def filter_neg_map_Num del: series_std_map_Num)
qed

lemma loader_sortino_single_downside:
  "loader_calculate_sortino [Num (- 1 / 100), Num (2 / 100)] = NaN"
  by (simp add: loader_calculate_sortino_def Let_def series_std_def series_mean_def dropna_def fl_sum_def)

section \<open>Sharpe ratio\<close>

lemma sharpe_guard: "returns = [] \<or> length returns < 2 \<or> fl_eq (series_std returns) (Num 0)
   \<Longrightarrow> calculate_sharpe_ratio returns rf = Num 0"
  by (auto simp add: calculate_sharpe_ratio_def)

lemma loader_sharpe_guard:
  "returns = [] \<or> fl_eq (series_std returns) (Num 0) \<Longrightarrow> loader_calculate_sharpe returns = Num 0"
  by (auto simp add: loader_calculate_sharpe_def)

text \<open>
  C4. The claim: the Sharpe ratio is 0 for a series that is empty, has fewer than two
  points or has standard deviation 0, never NaN. The equity curve 100, 110 has the
  single return 1/10; its standard deviation is NaN, which is not equal to 0, so the
  loader's \<open>_calculate_sharpe\<close> divides by it and returns NaN, where
  \<open>DashboardMetrics.calculate_sharpe_ratio\<close> checks the length and returns 0.
\<close>

theorem loader_sharpe_single_return:
  "dropna (pct_change [100, 110]) = [Num (1 / 10)]
   \<and> loader_calculate_sharpe [Num (1 / 10)] = NaN
   \<and> calculate_sharpe_ratio [Num (1 / 10)] rf = Num 0"
  by (simp add: loader_calculate_sharpe_def calculate_sharpe_ratio_def series_std_def
      series_mean_def fl_sum_def pct_change_def dropna_def fl_sub_def Let_def)

section \<open>Missing and empty inputs\<close>

text \<open>
  C5, as amended. With no daily logs or an empty list of them, the performance metrics
  of \<open>DashboardMetrics\<close> are the record of seven zeros, whatever the trade file;
  with no trade file or an empty one, the trade statistics are the record of six zeros;
  each helper of the loader returns 0 on the empty series; and the performance metrics
  of the loader on an empty equity curve are the empty record.
\<close>

theorem zero_defaults:
  "metrics_get_performance_metrics \<lparr>portfolio_file = pf, trades_file = tf, daily_logs = None\<rparr> days
      = [(''sharpe_ratio'', Num 0), (''sortino_ratio'', Num 0), (''max_drawdown'', Num 0),
         (''volatility'', Num 0), (''win_rate'', Num 0), (''total_return_pct'', Num 0),
         (''annual_return_pct'', Num 0)]
   \<and> metrics_get_performance_metrics \<lparr>portfolio_file = pf, trades_file = tf, daily_logs = Some []\<rparr> days
      = metrics_get_performance_metrics \<lparr>portfolio_file = pf, trades_file = tf, daily_logs = None\<rparr> days
   \<and> metrics_get_trade_statistics None
      = [(''total_trades'', 0), (''winning_trades'', 0), (''losing_trades'', 0),
         (''win_rate'', 0), (''total_pnl'', 0), (''avg_pnl'', 0)]
   \<and> metrics_get_trade_statistics (Some []) = metrics_get_trade_statistics None
   \<and> calculate_sharpe_ratio [] rf = Num 0
   \<and> metrics_calculate_max_drawdown [] = Num 0
   \<and> loader_annualize_return [] = Num 0
   \<and> loader_calculate_sharpe [] = Num 0
   \<and> loader_calculate_sortino [] = Num 0
   \<and> loader_calculate_max_drawdown [] = Num 0
   \<and> loader_calculate_win_rate [] = 0
   \<and> loader_get_performance_metrics [] trades = []"
  by (simp add: metrics_get_performance_metrics_def metrics_performance_of_def
      zero_performance_metrics_def zero_trade_statistics_def
      get_daily_returns_def metrics_get_trade_statistics_def loader_get_performance_metrics_def
      calculate_sharpe_ratio_def metrics_calculate_max_drawdown_def loader_annualize_return_def
      loader_calculate_sharpe_def loader_calculate_sortino_def loader_calculate_max_drawdown_def
      loader_calculate_win_rate_def)

text \<open>
  The claim as written fails on the loader: on the empty equity curve its performance
  metrics have no \<open>max_drawdown\<close> field at all.
\<close>

theorem zero_defaults_counterexample:
  "\<not> (map_of (loader_get_performance_metrics [] []) ''max_drawdown'' = Some (Num 0))"
  by (simp add: loader_get_performance_metrics_def)

section \<open>Fields of the performance metrics\<close>

text \<open>
  C6, as amended. On a non-empty equity curve the performance metrics of the loader
  have exactly the eight fields \<open>total_return_pct\<close>, \<open>annual_return_pct\<close>,
  \<open>sharpe_ratio\<close>, \<open>sortino_ratio\<close>, \<open>max_drawdown\<close>, \<open>win_rate\<close>,
  \<open>volatility\<close> and \<open>calmar_ratio\<close>, where \<open>calmar_ratio\<close> is 0 when
  \<open>max_drawdown\<close> equals 0 and \<open>annual_return_pct / |max_drawdown|\<close> otherwise; on
  an empty curve they are the empty record. The performance metrics of
  \<open>DashboardMetrics\<close> on non-empty returns have the seven other fields and no
  \<open>calmar_ratio\<close>.
\<close>

theorem loader_performance_fields:
  "map fst (loader_get_performance_metrics (e # es) trades)
     = [''total_return_pct'', ''annual_return_pct'', ''sharpe_ratio'', ''sortino_ratio'',
        ''max_drawdown'', ''win_rate'', ''volatility'', ''calmar_ratio'']
   \<and> (\<exists>annual mdd.
        map_of (loader_get_performance_metrics (e # es) trades) ''annual_return_pct'' = Some annual
      \<and> map_of (loader_get_performance_metrics (e # es) trades) ''max_drawdown'' = Some mdd
      \<and> map_of (loader_get_performance_metrics (e # es) trades) ''calmar_ratio''
           = Some (if fl_eq mdd (Num 0) then Num 0 else fl_div annual (fl_abs mdd)))
   \<and> loader_get_performance_metrics [] trades = []
   \<and> map fst (metrics_performance_of (r # rs) tf)
     = [''sharpe_ratio'', ''sortino_ratio'', ''max_drawdown'', ''volatility'', ''win_rate'',
        ''total_return_pct'', ''annual_return_pct'']"
  by (simp add: loader_get_performance_metrics_def metrics_performance_of_def Let_def)

text \<open>
  The claim as written fails on \<open>DashboardMetrics\<close>: its performance metrics for
  the logged equity 100, 110, 121 have no \<open>calmar_ratio\<close> field.
\<close>

theorem performance_fields_counterexample:
  "\<not> (''calmar_ratio'' \<in> fst ` set (metrics_get_performance_metrics
        \<lparr>portfolio_file = None, trades_file = None, daily_logs = Some [100, 110, 121]\<rparr> 30))"
  by (simp add: metrics_get_performance_metrics_def metrics_performance_of_def Let_def
      get_daily_returns_def pct_change_def dropna_def fl_sub_def)

section \<open>Annualized return\<close>




section \<open>Portfolio exposure\<close>

lemma invested_snapshot:
  "sum_list (map (\<lambda>p. getd (pos_quantity p) 0 * getd (pos_current_price p) (getd (pos_avg_price p) 0))
       (map snd (map (\<lambda>(s, q, a, c). (s, \<lparr>pos_quantity = Some q, pos_avg_price = Some a,
                                   pos_current_price = Some c\<rparr>)) ps)))
   = invested_value ps"
  by (induction ps) (auto simp add: invested_value_def getd_def)

text \<open>
  C8. For every portfolio snapshot the \<open>portfolio_exposure\<close> of the risk status is
  the invested value divided by the total equity (cash plus invested value) when the
  total equity is positive, and 0 otherwise; for cash 50000, one position of quantity
  100 at current price 500 and initial capital 100000 it is 1/2.
\<close>

theorem portfolio_exposure:
  "map_of (loader_get_risk_status (Some (snapshot cash ps initial)) cfg equity_curve)
       ''portfolio_exposure''
     = Some (if 0 < cash + invested_value ps
             then invested_value ps / (cash + invested_value ps) else 0)
   \<and> map_of (loader_get_risk_status
         (Some (snapshot 50000 [(''A'', 100, 500, 500)] 100000)) cfg equity_curve)
       ''portfolio_exposure'' = Some (1 / 2)"
proof -
  have g: "map_of (loader_get_risk_status (Some (snapshot c qs i)) cfg equity_curve)
       ''portfolio_exposure''
     = Some (if 0 < c + invested_value qs
             then invested_value qs / (c + invested_value qs) else 0)" for c qs i
    by (simp add: loader_get_risk_status_def loader_get_portfolio_status_def snapshot_def
        Let_def pv_number_def invested_snapshot getd_Some del: map_map)
  show ?thesis
    by (simp add: g) (simp add: invested_value_def)
qed

section \<open>Missing portfolio file\<close>

text \<open>
  C10. With no portfolio state file, the loader's portfolio status is the
  initial-capital default (total equity and cash 100000, return 0), the metrics module's
  portfolio summary has every monetary field 0, and the two records differ.
\<close>

theorem missing_portfolio_fallbacks:
  "map_of (loader_get_portfolio_status None) ''total_equity'' = Some (Number 100000)
   \<and> map_of (loader_get_portfolio_status None) ''cash'' = Some (Number 100000)
   \<and> map_of (loader_get_portfolio_status None) ''total_return_pct'' = Some (Number 0)
   \<and> metrics_get_portfolio_summary None =
       [(''total_equity'', Number 0), (''cash'', Number 0), (''positions_value'', Number 0),
        (''total_return_pct'', Number 0), (''unrealized_pnl'', Number 0)]
   \<and> \<not> (loader_get_portfolio_status None = metrics_get_portfolio_summary None)"
  by (simp add: loader_get_portfolio_status_def metrics_get_portfolio_summary_def)

end
